theory Spec2Isabelle
  imports Main "HOL-Library.Sublist"
begin

section \<open>Data model of the DeckBuilder component\<close>

text \<open>
  The component under verification is \<^verbatim>\<open>DeckBuilder\<close> (the variant with the workflow
  state object). JavaScript strings are modelled as \<^typ>\<open>string\<close>, one \<^typ>\<open>char\<close> per code
  unit in the range 0..255. Where the component treats \<^verbatim>\<open>null\<close> and \<^verbatim>\<open>undefined\<close> alike
  (a truthiness test, a property read) both are \<open>None\<close>; where it tells them apart (the
  \<^verbatim>\<open>reason\<close> handed to \<^verbatim>\<open>new Error\<close>) the model keeps them apart.
\<close>

text \<open>
  A card object \<^verbatim>\<open>{name, type, cmc}\<close> of the server's response. \<open>cmc = 0\<close> also stands for
  an absent \<^verbatim>\<open>cmc\<close> (both are falsy where the component reads it) and \<open>name = []\<close> for an
  absent \<^verbatim>\<open>name\<close> (both render as no text). Every card has a \<^verbatim>\<open>type\<close> string, as the
  response format gives it.
\<close>

record card =
  name :: string
  type :: string
  cmc :: nat

text \<open>The response of \<^verbatim>\<open>/build-deck\<close>: \<^verbatim>\<open>{commander, partner?, cards}\<close>.\<close>

record built_deck =
  commander :: "card option"
  partner :: "card option"
  cards :: "card list"

text \<open>The object held by \<^verbatim>\<open>useState\<close> (lines 27-39 of the component).\<close>

record state =
  step :: nat
  format :: string
  cardList :: string
  useCommander :: bool
  commanderName :: string
  partnerCommander :: string
  deckGoal :: string
  loading :: bool
  error :: "string option"
  result :: "built_deck option"
  hasPartnerAbility :: bool

definition initial_state :: state where
  "initial_state =
     \<lparr>step = 1, format = [], cardList = [], useCommander = False, commanderName = [],
      partnerCommander = [], deckGoal = [], loading = False, error = None, result = None,
      hasPartnerAbility = False\<rparr>"

section \<open>The remote service\<close>

text \<open>
  What a \<^verbatim>\<open>fetch\<close> followed by \<^verbatim>\<open>response.json()\<close> gives the handler:
  \<^item> \<open>Rejected m\<close>: \<^verbatim>\<open>fetch\<close> or \<^verbatim>\<open>response.json()\<close> threw an error whose message is \<open>m\<close>;
  \<^item> \<open>NotOk e\<close>: \<^verbatim>\<open>response.ok\<close> is false and the parsed body has the \<^verbatim>\<open>error\<close> field \<open>e\<close>
    (\<open>None\<close> when the field is absent);
  \<^item> \<open>Ok b\<close>: \<^verbatim>\<open>response.ok\<close> is true and the parsed body is \<open>b\<close>.
\<close>

datatype 'a fetched = Rejected string | NotOk "string option" | Ok 'a

record validate_data =
  has_partner :: bool

text \<open>
  The \<^verbatim>\<open>reason\<close> field of a check-partner body: the key is absent (\<^verbatim>\<open>undefined\<close>), or its value
  is JSON \<^verbatim>\<open>null\<close>, or it is a string.
\<close>

datatype reason_value = ReasonAbsent | ReasonNull | ReasonText string

record partner_data =
  is_compatible :: bool
  reason :: reason_value

text \<open>
  The handler never reads \<^verbatim>\<open>partnerResponse.ok\<close>: whatever the status, the body is parsed
  and its \<^verbatim>\<open>is_compatible\<close> field decides.
\<close>

datatype partner_fetched = PRejected string | PBody partner_data

record server =
  validate_commander :: "string \<Rightarrow> bool \<Rightarrow> validate_data fetched"
  check_partner :: "string \<Rightarrow> string \<Rightarrow> partner_fetched"
  build_deck :: "string \<Rightarrow> string \<Rightarrow> string \<Rightarrow> string \<Rightarrow> string \<Rightarrow> built_deck fetched"

text \<open>The requests a handler issued, in order, with the fields of their JSON bodies.\<close>

datatype request =
    ValidateCommander string bool
  | CheckPartner string string
  | BuildDeck string string string string string

section \<open>Event handlers\<close>

text \<open>
  A handler is modelled as run to completion on the state it starts from: every
  \<^verbatim>\<open>setState(prev => ...)\<close> it makes is applied in order, and the \<^verbatim>\<open>state\<close> of its closure is
  the state it starts from. The result is the state after its last update and the requests
  it issued.
\<close>

definition handleFormatChange :: "string \<Rightarrow> state \<Rightarrow> state" where
  "handleFormatChange fmt prev =
     prev\<lparr>format := fmt, step := 2, commanderName := [], partnerCommander := [],
          useCommander := (fmt = ''commander'')\<rparr>"

text \<open>\<^verbatim>\<open>event.target.files[0]\<close> and the outcome of \<^verbatim>\<open>file.text()\<close>.\<close>

datatype file_read = NoFile | ReadFailed | FileText string

definition handleFileUpload :: "file_read \<Rightarrow> state \<Rightarrow> state" where
  "handleFileUpload f prev =
     (case f of
        NoFile \<Rightarrow> prev
      | FileText text \<Rightarrow> prev\<lparr>cardList := text, error := None\<rparr>
      | ReadFailed \<Rightarrow> prev\<lparr>error := Some ''Error reading file. Please try again.''\<rparr>)"

text \<open>The computed key \<^verbatim>\<open>[isPartner ? 'partnerCommander' : 'commanderName']: v\<close>.\<close>

definition set_name_field :: "bool \<Rightarrow> string \<Rightarrow> state \<Rightarrow> state" where
  "set_name_field isPartner v prev =
     (if isPartner then prev\<lparr>partnerCommander := v\<rparr> else prev\<lparr>commanderName := v\<rparr>)"

text \<open>\<^verbatim>\<open>error.error || dflt\<close>: an absent or empty \<^verbatim>\<open>error\<close> field is falsy.\<close>

definition or_default :: "string option \<Rightarrow> string \<Rightarrow> string" where
  "or_default e dflt = (case e of None \<Rightarrow> dflt | Some m \<Rightarrow> if m = [] then dflt else m)"

text \<open>
  The message of \<^verbatim>\<open>new Error(partnerData.reason)\<close>: the argument converted to a string, and
  the empty default message when the argument is \<^verbatim>\<open>undefined\<close>.
\<close>

definition error_message :: "reason_value \<Rightarrow> string" where
  "error_message r =
     (case r of ReasonAbsent \<Rightarrow> [] | ReasonNull \<Rightarrow> ''null'' | ReasonText m \<Rightarrow> m)"

text \<open>The \<^verbatim>\<open>catch\<close> block of \<^verbatim>\<open>handleCommanderInput\<close> (lines 135-142).\<close>

definition catch_commander :: "bool \<Rightarrow> string \<Rightarrow> state \<Rightarrow> state" where
  "catch_commander isPartner message prev =
     set_name_field isPartner []
       (prev\<lparr>loading := False, error := Some (''Error validating commander: '' @ message)\<rparr>)"

definition handleCommanderInput :: "server \<Rightarrow> string \<Rightarrow> bool \<Rightarrow> state \<Rightarrow> state \<times> request list" where
  "handleCommanderInput srv v isPartner s =
     (let s1 = set_name_field isPartner v (s\<lparr>loading := True, error := None\<rparr>) in
      if v = [] then (s1\<lparr>loading := False, hasPartnerAbility := False\<rparr>, [])
      else
        (case validate_commander srv v isPartner of
           Rejected m \<Rightarrow> (catch_commander isPartner m s1, [ValidateCommander v isPartner])
         | NotOk e \<Rightarrow>
             (catch_commander isPartner (or_default e ''Invalid commander name'') s1,
              [ValidateCommander v isPartner])
         | Ok data \<Rightarrow>
             if \<not> isPartner then
               (s1\<lparr>hasPartnerAbility := has_partner data, loading := False, error := None\<rparr>,
                [ValidateCommander v isPartner])
             else
               (case check_partner srv (commanderName s) v of
                  PRejected m \<Rightarrow>
                    (catch_commander isPartner m s1,
                     [ValidateCommander v isPartner, CheckPartner (commanderName s) v])
                | PBody partnerData \<Rightarrow>
                    if \<not> is_compatible partnerData then
                      (catch_commander isPartner (error_message (reason partnerData)) s1,
                       [ValidateCommander v isPartner, CheckPartner (commanderName s) v])
                    else
                      (s1\<lparr>loading := False, error := None\<rparr>,
                       [ValidateCommander v isPartner, CheckPartner (commanderName s) v]))))"

definition handleBuildDeck :: "server \<Rightarrow> state \<Rightarrow> state \<times> request list" where
  "handleBuildDeck srv s =
     (if cardList s = [] then (s\<lparr>error := Some ''Please provide a card list''\<rparr>, [])
      else
        (let s1 = s\<lparr>loading := True, error := None\<rparr>;
             req = BuildDeck (format s) (cardList s) (commanderName s) (partnerCommander s)
                     (deckGoal s)
         in case build_deck srv (format s) (cardList s) (commanderName s) (partnerCommander s)
                   (deckGoal s) of
              Rejected m \<Rightarrow>
                (s1\<lparr>loading := False, error := Some (''Error building deck: '' @ m)\<rparr>, [req])
            | NotOk e \<Rightarrow>
                (s1\<lparr>loading := False,
                    error := Some (''Error building deck: '' @ or_default e ''Error building deck'')\<rparr>,
                 [req])
            | Ok r \<Rightarrow> (s1\<lparr>loading := False, result := Some r, step := 4\<rparr>, [req])))"

section \<open>Result categorization\<close>

text \<open>
  \<^verbatim>\<open>String.prototype.toLowerCase\<close> on code units below 256: the letters A-Z and the
  accented capitals 192-222 (the multiplication sign 215 apart) move up by 32.
\<close>

definition toLowerCase_char :: "char \<Rightarrow> char" where
  "toLowerCase_char c =
     (let n = (of_char c :: nat) in
      if (65 \<le> n \<and> n \<le> 90) \<or> (192 \<le> n \<and> n \<le> 222 \<and> n \<noteq> 215) then char_of (n + 32) else c)"

definition toLowerCase :: "string \<Rightarrow> string" where
  "toLowerCase s = map toLowerCase_char s"

text \<open>\<^verbatim>\<open>s.includes(sub)\<close>: \<open>sub\<close> starts at some position of \<open>s\<close>.\<close>

fun includes_str :: "string \<Rightarrow> string \<Rightarrow> bool" where
  "includes_str [] sub = (sub = [])"
| "includes_str (c # cs) sub = (prefix sub (c # cs) \<or> includes_str cs sub)"

text \<open>
  The object \<^verbatim>\<open>categorizedCards\<close> (lines 197-207). An element of a bucket is a JavaScript
  value that may be \<^verbatim>\<open>undefined\<close>: the Commander bucket holds \<^verbatim>\<open>state.result.commander\<close>
  whatever it is.
\<close>

record categorized =
  Commander :: "card option list"
  Partner :: "card option list"
  Creatures :: "card option list"
  Instants :: "card option list"
  Sorceries :: "card option list"
  Artifacts :: "card option list"
  Enchantments :: "card option list"
  Planeswalkers :: "card option list"
  Lands :: "card option list"

definition initial_categorized :: "built_deck \<Rightarrow> categorized" where
  "initial_categorized r =
     \<lparr>Commander = [commander r],
      Partner = (case partner r of Some p \<Rightarrow> [Some p] | None \<Rightarrow> []),
      Creatures = [], Instants = [], Sorceries = [], Artifacts = [], Enchantments = [],
      Planeswalkers = [], Lands = []\<rparr>"

text \<open>The body of the \<^verbatim>\<open>forEach\<close> (lines 210-217); \<^verbatim>\<open>push\<close> appends.\<close>

definition categorize :: "card \<Rightarrow> categorized \<Rightarrow> categorized" where
  "categorize c cc =
     (let t = toLowerCase (type c) in
      if includes_str t ''creature'' then cc\<lparr>Creatures := Creatures cc @ [Some c]\<rparr>
      else if includes_str t ''instant'' then cc\<lparr>Instants := Instants cc @ [Some c]\<rparr>
      else if includes_str t ''sorcery'' then cc\<lparr>Sorceries := Sorceries cc @ [Some c]\<rparr>
      else if includes_str t ''artifact'' then cc\<lparr>Artifacts := Artifacts cc @ [Some c]\<rparr>
      else if includes_str t ''enchantment'' then cc\<lparr>Enchantments := Enchantments cc @ [Some c]\<rparr>
      else if includes_str t ''planeswalker'' then cc\<lparr>Planeswalkers := Planeswalkers cc @ [Some c]\<rparr>
      else if includes_str t ''land'' then cc\<lparr>Lands := Lands cc @ [Some c]\<rparr>
      else cc)"

definition categorizedCards :: "built_deck \<Rightarrow> categorized" where
  "categorizedCards r = fold categorize (cards r) (initial_categorized r)"

text \<open>\<^verbatim>\<open>Object.entries\<close>: the keys in the order the object literal wrote them.\<close>

definition entries :: "categorized \<Rightarrow> (string \<times> card option list) list" where
  "entries cc =
     [(''Commander'', Commander cc), (''Partner'', Partner cc), (''Creatures'', Creatures cc),
      (''Instants'', Instants cc), (''Sorceries'', Sorceries cc), (''Artifacts'', Artifacts cc),
      (''Enchantments'', Enchantments cc), (''Planeswalkers'', Planeswalkers cc),
      (''Lands'', Lands cc)]"

text \<open>A number in a template literal or as a JSX child: its decimal digits.\<close>

function show_nat :: "nat \<Rightarrow> string" where
  "show_nat n =
     (if n < 10 then [''0123456789'' ! n] else show_nat (n div 10) @ [''0123456789'' ! (n mod 10)])"
  by pat_completeness auto
termination
  by (relation "measure (\<lambda>n. n)") auto

declare show_nat.simps [simp del]

text \<open>Reading a property of \<^verbatim>\<open>undefined\<close> throws.\<close>

datatype js_error = TypeError

text \<open>
  The text of one \<^verbatim>\<open><li>\<close> (line 229): the name, a space, and the cost when it is truthy.
\<close>

definition li_text :: "card \<Rightarrow> string" where
  "li_text c = name c @ '' '' @ (if cmc c \<noteq> 0 then ''('' @ show_nat (cmc c) @ '' CMC)'' else [])"

definition render_li :: "card option \<Rightarrow> js_error + string" where
  "render_li v = (case v of None \<Rightarrow> Inl TypeError | Some c \<Rightarrow> Inr (li_text c))"

text \<open>\<^verbatim>\<open>xs.map(f)\<close> for an \<open>f\<close> that may throw: the first throw ends the map.\<close>

fun map_throw :: "('a \<Rightarrow> 'e + 'b) \<Rightarrow> 'a list \<Rightarrow> 'e + 'b list" where
  "map_throw f [] = Inr []"
| "map_throw f (x # xs) =
     (case f x of
        Inl e \<Rightarrow> Inl e
      | Inr y \<Rightarrow> (case map_throw f xs of Inl e \<Rightarrow> Inl e | Inr ys \<Rightarrow> Inr (y # ys)))"

text \<open>
  One rendered category: the React key of its \<^verbatim>\<open><div>\<close>, the text of its \<^verbatim>\<open><h3>\<close> and the
  texts of its \<^verbatim>\<open><li>\<close> elements.
\<close>

record section_view =
  key :: string
  heading :: string
  items :: "string list"

text \<open>
  The callback of the outer \<^verbatim>\<open>map\<close> (lines 222-235): \<open>None\<close> is the child \<^verbatim>\<open>false\<close> of an empty
  bucket.
\<close>

definition render_entry :: "string \<times> card option list \<Rightarrow> js_error + section_view option" where
  "render_entry e =
     (case e of (category, bucket) \<Rightarrow>
        if length bucket > 0 then
          (case map_throw render_li bucket of
             Inl err \<Rightarrow> Inl err
           | Inr lis \<Rightarrow>
               Inr (Some \<lparr>key = category,
                          heading = category @ '' ('' @ show_nat (length bucket) @ '')'',
                          items = lis\<rparr>))
        else Inr None)"

text \<open>
  \<^verbatim>\<open>renderDeckList\<close>: \<open>None\<close> is the returned \<^verbatim>\<open>null\<close>; otherwise the children of the outer
  \<^verbatim>\<open><div>\<close> that React displays (a \<^verbatim>\<open>false\<close> child displays nothing and is left out), or the
  error thrown while building them.
\<close>

definition renderDeckList :: "state \<Rightarrow> (js_error + section_view list) option" where
  "renderDeckList s =
     (case result s of
        None \<Rightarrow> None
      | Some r \<Rightarrow>
          Some (case map_throw render_entry (entries (categorizedCards r)) of
                  Inl err \<Rightarrow> Inl err
                | Inr children \<Rightarrow> Inr (List.map_filter (\<lambda>child. child) children)))"

section \<open>The workflow as a transition system\<close>

text \<open>
  The states the user can reach. Each rule is one event of the rendered form, under the
  condition that the form shows (and enables) the control: the card inputs need
  \<^verbatim>\<open>step >= 2\<close>, the commander card needs the commander format, the partner input needs
  \<^verbatim>\<open>hasPartnerAbility\<close>, and the Build button is disabled while \<^verbatim>\<open>loading\<close> or when the
  card list or the commander name is empty. The remote service may answer anything.
\<close>

inductive reachable :: "state \<Rightarrow> bool" where
  init: "reachable initial_state"
| select_format:
    "reachable s \<Longrightarrow> fmt = ''standard'' \<or> fmt = ''commander'' \<Longrightarrow>
     reachable (handleFormatChange fmt s)"
| upload_file:
    "reachable s \<Longrightarrow> 2 \<le> step s \<Longrightarrow> reachable (handleFileUpload f s)"
| edit_cardList:
    "reachable s \<Longrightarrow> 2 \<le> step s \<Longrightarrow> reachable (s\<lparr>cardList := v\<rparr>)"
| enter_commander:
    "reachable s \<Longrightarrow> 2 \<le> step s \<Longrightarrow> format s = ''commander'' \<Longrightarrow>
     reachable (fst (handleCommanderInput srv v False s))"
| enter_partner:
    "reachable s \<Longrightarrow> 2 \<le> step s \<Longrightarrow> format s = ''commander'' \<Longrightarrow> hasPartnerAbility s \<Longrightarrow>
     reachable (fst (handleCommanderInput srv v True s))"
| edit_deckGoal:
    "reachable s \<Longrightarrow> 2 \<le> step s \<Longrightarrow> format s = ''commander'' \<Longrightarrow>
     reachable (s\<lparr>deckGoal := v\<rparr>)"
| build:
    "reachable s \<Longrightarrow> 2 \<le> step s \<Longrightarrow> format s = ''commander'' \<Longrightarrow> \<not> loading s \<Longrightarrow>
     cardList s \<noteq> [] \<Longrightarrow> commanderName s \<noteq> [] \<Longrightarrow>
     reachable (fst (handleBuildDeck srv s))"

section \<open>The categorization as the specification words it\<close>

text \<open>
  The type categories in their fixed order, each with the substring that selects it.
\<close>

definition type_checks :: "(string \<times> string) list" where
  "type_checks =
     [(''Creatures'', ''creature''), (''Instants'', ''instant''), (''Sorceries'', ''sorcery''),
      (''Artifacts'', ''artifact''), (''Enchantments'', ''enchantment''),
      (''Planeswalkers'', ''planeswalker''), (''Lands'', ''land'')]"

text \<open>
  Case-insensitive substring match: with the case of both folded, \<open>sub\<close> is a contiguous
  part of \<open>t\<close>.
\<close>

definition ci_substring :: "string \<Rightarrow> string \<Rightarrow> bool" where
  "ci_substring sub t = sublist (map toLowerCase_char sub) (map toLowerCase_char t)"

text \<open>The category of a card: the first one, in the fixed order, whose substring matches.\<close>

definition spec_category :: "card \<Rightarrow> string option" where
  "spec_category c =
     map_option fst (find (\<lambda>(category, sub). ci_substring sub (type c)) type_checks)"

definition spec_type_buckets :: "built_deck \<Rightarrow> (string \<times> card list) list" where
  "spec_type_buckets r =
     map (\<lambda>(category, sub). (category, filter (\<lambda>c. spec_category c = Some category) (cards r)))
       type_checks"

definition section_of :: "string \<times> card list \<Rightarrow> section_view" where
  "section_of e =
     (case e of (category, bucket) \<Rightarrow>
        \<lparr>key = category, heading = category @ '' ('' @ show_nat (length bucket) @ '')'',
         items = map li_text bucket\<rparr>)"

text \<open>
  The sections of a deck whose commander is \<open>c\<close>: Commander, Partner and the type
  categories in the fixed order, the empty ones left out.
\<close>

definition spec_sections :: "card \<Rightarrow> built_deck \<Rightarrow> section_view list" where
  "spec_sections c r =
     map section_of
       (filter (\<lambda>(category, bucket). bucket \<noteq> [])
          ((''Commander'', [c]) #
           (''Partner'', (case partner r of Some p \<Rightarrow> [p] | None \<Rightarrow> [])) #
           spec_type_buckets r))"

section \<open>Concrete inputs\<close>

definition atraxa :: card where
  "atraxa = \<lparr>name = ''Atraxa'', type = ''Legendary Creature'', cmc = 4\<rparr>"

definition example_deck :: built_deck where
  "example_deck =
     \<lparr>commander = Some atraxa, partner = None,
      cards = [\<lparr>name = ''Bolt'', type = ''Instant'', cmc = 1\<rparr>,
               \<lparr>name = ''Bear'', type = ''Creature'', cmc = 2\<rparr>,
               \<lparr>name = ''Golem'', type = ''Artifact Creature'', cmc = 3\<rparr>,
               \<lparr>name = ''Siege'', type = ''Battle'', cmc = 2\<rparr>]\<rparr>"

text \<open>A deck without a commander, as a build for a format without one would give.\<close>

definition headless_deck :: built_deck where
  "headless_deck = \<lparr>commander = None, partner = None, cards = []\<rparr>"

text \<open>A service that accepts every commander and pair and builds \<open>example_deck\<close>.\<close>

definition accepting_server :: server where
  "accepting_server =
     \<lparr>validate_commander = (\<lambda>n p. Ok \<lparr>has_partner = True\<rparr>),
      check_partner = (\<lambda>c1 c2. PBody \<lparr>is_compatible = True, reason = ReasonAbsent\<rparr>),
      build_deck = (\<lambda>f l c p g. Ok example_deck)\<rparr>"

text \<open>A service that answers every request with a non-2xx status and an error text.\<close>

definition refusing_server :: server where
  "refusing_server =
     \<lparr>validate_commander = (\<lambda>n p. NotOk (Some ''Card not found'')),
      check_partner = (\<lambda>c1 c2. PBody \<lparr>is_compatible = False, reason = ReasonText ''No partner''\<rparr>),
      build_deck = (\<lambda>f l c p g. NotOk (Some ''Deck too small''))\<rparr>"

text \<open>A service that cannot be reached: every \<^verbatim>\<open>fetch\<close> rejects.\<close>

definition unreachable_server :: server where
  "unreachable_server =
     \<lparr>validate_commander = (\<lambda>n p. Rejected ''Failed to fetch''),
      check_partner = (\<lambda>c1 c2. PRejected ''Failed to fetch''),
      build_deck = (\<lambda>f l c p g. Rejected ''Failed to fetch'')\<rparr>"

text \<open>A service that accepts every commander but finds no pair compatible.\<close>

definition incompatible_server :: server where
  "incompatible_server =
     \<lparr>validate_commander = (\<lambda>n p. Ok \<lparr>has_partner = True\<rparr>),
      check_partner = (\<lambda>c1 c2. PBody \<lparr>is_compatible = False, reason = ReasonText ''No partner''\<rparr>),
      build_deck = (\<lambda>f l c p g. Ok example_deck)\<rparr>"

text \<open>
  The form after the commander format was selected, a card list typed and the commander
  Atraxa entered and accepted.
\<close>

definition ready_state :: state where
  "ready_state =
     fst (handleCommanderInput accepting_server ''Atraxa'' False
            ((handleFormatChange ''commander'' initial_state)\<lparr>cardList := ''1x Bolt''\<rparr>))"

text \<open>The state after a successful build from \<open>ready_state\<close>.\<close>

definition built_state :: state where
  "built_state = fst (handleBuildDeck accepting_server ready_state)"

text \<open>The form after that build, with another card list typed over the first.\<close>

definition edited_state :: state where
  "edited_state = built_state\<lparr>cardList := ''1x Bear''\<rparr>"

text \<open>A service whose build answers with a 2xx status and \<open>headless_deck\<close>.\<close>

definition headless_server :: server where
  "headless_server =
     \<lparr>validate_commander = (\<lambda>n p. Ok \<lparr>has_partner = True\<rparr>),
      check_partner = (\<lambda>c1 c2. PBody \<lparr>is_compatible = True, reason = ReasonAbsent\<rparr>),
      build_deck = (\<lambda>f l c p g. Ok headless_deck)\<rparr>"

text \<open>The state after \<open>headless_server\<close> built from \<open>ready_state\<close>.\<close>

definition headless_state :: state where
  "headless_state = fst (handleBuildDeck headless_server ready_state)"

section \<open>The concrete states\<close>

lemma ready_state_eq:
  "ready_state =
     \<lparr>step = 2, format = ''commander'', cardList = ''1x Bolt'', useCommander = True,
      commanderName = ''Atraxa'', partnerCommander = [], deckGoal = [], loading = False,
      error = None, result = None, hasPartnerAbility = True\<rparr>"
  by (simp add: ready_state_def handleCommanderInput_def handleFormatChange_def initial_state_def
      set_name_field_def accepting_server_def)

lemma built_state_eq:
  "built_state =
     \<lparr>step = 4, format = ''commander'', cardList = ''1x Bolt'', useCommander = True,
      commanderName = ''Atraxa'', partnerCommander = [], deckGoal = [], loading = False,
      error = None, result = Some example_deck, hasPartnerAbility = True\<rparr>"
  by (simp add: built_state_def ready_state_eq handleBuildDeck_def accepting_server_def)

lemma reachable_ready_state: "reachable ready_state"
proof -
  have a: "reachable (handleFormatChange ''commander'' initial_state)"
    by (rule reachable.select_format [OF reachable.init]) simp
  have b: "reachable ((handleFormatChange ''commander'' initial_state)\<lparr>cardList := ''1x Bolt''\<rparr>)"
    by (rule reachable.edit_cardList [OF a]) (simp add: handleFormatChange_def)
  show ?thesis
    unfolding ready_state_def
    by (rule reachable.enter_commander [OF b]) (simp_all add: handleFormatChange_def)
qed

lemma reachable_built_state: "reachable built_state"
  unfolding built_state_def
  by (rule reachable.build [OF reachable_ready_state]) (simp_all add: ready_state_eq)

lemma reachable_edited_state: "reachable edited_state"
  unfolding edited_state_def
  by (rule reachable.edit_cardList [OF reachable_built_state]) (simp add: built_state_eq)

lemma edited_state_eq:
  "edited_state =
     \<lparr>step = 4, format = ''commander'', cardList = ''1x Bear'', useCommander = True,
      commanderName = ''Atraxa'', partnerCommander = [], deckGoal = [], loading = False,
      error = None, result = Some example_deck, hasPartnerAbility = True\<rparr>"
  by (simp add: edited_state_def built_state_eq)

lemma headless_state_eq:
  "headless_state =
     \<lparr>step = 4, format = ''commander'', cardList = ''1x Bolt'', useCommander = True,
      commanderName = ''Atraxa'', partnerCommander = [], deckGoal = [], loading = False,
      error = None, result = Some headless_deck, hasPartnerAbility = True\<rparr>"
  by (simp add: headless_state_def ready_state_eq handleBuildDeck_def headless_server_def)

lemma reachable_headless_state: "reachable headless_state"
  unfolding headless_state_def
  by (rule reachable.build [OF reachable_ready_state]) (simp_all add: ready_state_eq)

section \<open>Guards that make no request\<close>

text \<open>
  C7. In every state whose \<^verbatim>\<open>cardList\<close> is empty, the build-deck submission issues no
  request and sets \<^verbatim>\<open>error\<close> to exactly "Please provide a card list"; every other field of
  the state is as before.
\<close>

theorem handleBuildDeck_empty_cardList:
  "cardList s = [] \<Longrightarrow>
   handleBuildDeck srv s = (s\<lparr>error := Some ''Please provide a card list''\<rparr>, [])"
  by (simp add: handleBuildDeck_def)

theorem handleBuildDeck_empty_cardList_witness:
  "cardList initial_state = [] \<and>
   handleBuildDeck accepting_server initial_state =
     (initial_state\<lparr>error := Some ''Please provide a card list''\<rparr>, [])"
proof -
  have h: "cardList initial_state = []" by (simp add: initial_state_def)
  from handleBuildDeck_empty_cardList [OF h, of accepting_server] h show ?thesis by simp
qed

text \<open>
  C8. In every state, for the commander and for the partner input alike, entering an empty
  name issues no request and ends with \<^verbatim>\<open>hasPartnerAbility = false\<close> and
  \<^verbatim>\<open>loading = false\<close>.
\<close>

theorem handleCommanderInput_empty_name:
  "snd (handleCommanderInput srv [] isPartner s) = [] \<and>
   hasPartnerAbility (fst (handleCommanderInput srv [] isPartner s)) = False \<and>
   loading (fst (handleCommanderInput srv [] isPartner s)) = False"
  by (simp add: handleCommanderInput_def Let_def)

theorem handleCommanderInput_empty_name_witness:
  "snd (handleCommanderInput accepting_server [] False ready_state) = [] \<and>
   hasPartnerAbility (fst (handleCommanderInput accepting_server [] False ready_state)) = False \<and>
   loading (fst (handleCommanderInput accepting_server [] False ready_state)) = False"
  using handleCommanderInput_empty_name [of accepting_server False ready_state] .

section \<open>Failed validation of the commander\<close>

text \<open>
  C6. For every non-empty name entered as the primary commander: when the
  validate-commander call throws an error with message \<open>m\<close>, or answers with a non-2xx
  status and the error field \<open>e\<close>, the handler ends with \<^verbatim>\<open>commanderName\<close> empty,
  \<^verbatim>\<open>loading\<close> false and \<^verbatim>\<open>error\<close> the text "Error validating commander: " followed by the
  detail: \<open>m\<close>, or the error field, or "Invalid commander name" when the field is absent
  or empty.
\<close>

theorem commander_validation_failure:
  assumes "v \<noteq> []"
  shows "(validate_commander srv v False = Rejected m \<longrightarrow>
            commanderName (fst (handleCommanderInput srv v False s)) = [] \<and>
            loading (fst (handleCommanderInput srv v False s)) = False \<and>
            error (fst (handleCommanderInput srv v False s)) =
              Some (''Error validating commander: '' @ m)) \<and>
         (validate_commander srv v False = NotOk e \<longrightarrow>
            commanderName (fst (handleCommanderInput srv v False s)) = [] \<and>
            loading (fst (handleCommanderInput srv v False s)) = False \<and>
            error (fst (handleCommanderInput srv v False s)) =
              Some (''Error validating commander: '' @ or_default e ''Invalid commander name''))"
  using assms
  by (simp add: handleCommanderInput_def Let_def catch_commander_def set_name_field_def)

theorem commander_validation_failure_witness:
  "''Atraxa'' \<noteq> [] \<and>
   validate_commander unreachable_server ''Atraxa'' False = Rejected ''Failed to fetch'' \<and>
   commanderName (fst (handleCommanderInput unreachable_server ''Atraxa'' False ready_state)) = [] \<and>
   loading (fst (handleCommanderInput unreachable_server ''Atraxa'' False ready_state)) = False \<and>
   error (fst (handleCommanderInput unreachable_server ''Atraxa'' False ready_state)) =
     Some ''Error validating commander: Failed to fetch'' \<and>
   validate_commander refusing_server ''Atraxa'' False = NotOk (Some ''Card not found'') \<and>
   commanderName (fst (handleCommanderInput refusing_server ''Atraxa'' False ready_state)) = [] \<and>
   loading (fst (handleCommanderInput refusing_server ''Atraxa'' False ready_state)) = False \<and>
   error (fst (handleCommanderInput refusing_server ''Atraxa'' False ready_state)) =
     Some ''Error validating commander: Card not found''"
proof -
  have n: "''Atraxa'' \<noteq> []" by simp
  have r: "validate_commander unreachable_server ''Atraxa'' False = Rejected ''Failed to fetch''"
    by (simp add: unreachable_server_def)
  have f: "validate_commander refusing_server ''Atraxa'' False = NotOk (Some ''Card not found'')"
    by (simp add: refusing_server_def)
  from commander_validation_failure [OF n, of unreachable_server "''Failed to fetch''" ready_state]
    commander_validation_failure [OF n, of refusing_server _ ready_state "Some ''Card not found''"]
    n r f
  show ?thesis by (simp add: or_default_def)
qed

section \<open>Incompatible partner\<close>

text \<open>
  C2 as stated fails: after an accepted partner name that the check-partner call reports
  incompatible, \<^verbatim>\<open>error\<close> is not the reason the server gave. Here the reason is
  "No partner" and the error shown differs from it.
\<close>

theorem partner_incompatible_error_counterexample:
  "commanderName ready_state \<noteq> [] \<and>
   validate_commander incompatible_server ''Bruse'' True = Ok \<lparr>has_partner = True\<rparr> \<and>
   check_partner incompatible_server (commanderName ready_state) ''Bruse'' =
     PBody \<lparr>is_compatible = False, reason = ReasonText ''No partner''\<rparr> \<and>
   error (fst (handleCommanderInput incompatible_server ''Bruse'' True ready_state)) \<noteq>
     Some ''No partner''"
  by (simp add: ready_state_eq incompatible_server_def handleCommanderInput_def Let_def
      catch_commander_def set_name_field_def error_message_def)

text \<open>
  C2, amended. For every state and every non-empty partner name: when the partner's
  validate-commander call succeeds and the check-partner call reports incompatibility, the
  handler ends with \<^verbatim>\<open>partnerCommander\<close> empty, and with \<^verbatim>\<open>error\<close> the text
  "Error validating commander: " followed by the reason string of the check-partner
  response.
\<close>

theorem partner_incompatible_error_is_prefixed:
  assumes "v \<noteq> []"
    and "validate_commander srv v True = Ok d"
    and "check_partner srv (commanderName s) v = PBody pd"
    and "\<not> is_compatible pd"
  shows "partnerCommander (fst (handleCommanderInput srv v True s)) = [] \<and>
         (reason pd = ReasonText r \<longrightarrow>
            error (fst (handleCommanderInput srv v True s)) =
              Some (''Error validating commander: '' @ r))"
  using assms
  by (simp add: handleCommanderInput_def Let_def catch_commander_def set_name_field_def
      error_message_def)

theorem partner_incompatible_error_is_prefixed_witness:
  "''Bruse'' \<noteq> [] \<and> commanderName ready_state \<noteq> [] \<and>
   validate_commander incompatible_server ''Bruse'' True = Ok \<lparr>has_partner = True\<rparr> \<and>
   check_partner incompatible_server (commanderName ready_state) ''Bruse'' =
     PBody \<lparr>is_compatible = False, reason = ReasonText ''No partner''\<rparr> \<and>
   \<not> is_compatible \<lparr>is_compatible = False, reason = ReasonText ''No partner''\<rparr> \<and>
   reason \<lparr>is_compatible = False, reason = ReasonText ''No partner''\<rparr> = ReasonText ''No partner'' \<and>
   partnerCommander (fst (handleCommanderInput incompatible_server ''Bruse'' True ready_state)) = [] \<and>
   error (fst (handleCommanderInput incompatible_server ''Bruse'' True ready_state)) =
     Some ''Error validating commander: No partner''"
proof -
  have n: "''Bruse'' \<noteq> []" by simp
  have v: "validate_commander incompatible_server ''Bruse'' True = Ok \<lparr>has_partner = True\<rparr>"
    by (simp add: incompatible_server_def)
  have c: "check_partner incompatible_server (commanderName ready_state) ''Bruse'' =
     PBody \<lparr>is_compatible = False, reason = ReasonText ''No partner''\<rparr>"
    by (simp add: incompatible_server_def)
  have i: "\<not> is_compatible \<lparr>is_compatible = False, reason = ReasonText ''No partner''\<rparr>" by simp
  from partner_incompatible_error_is_prefixed [OF n v c i, of "''No partner''"] n v c i
  show ?thesis by (simp add: ready_state_eq)
qed

section \<open>Format selection\<close>

text \<open>
  C4 at a concrete state: with the commander Atraxa accepted and its partner ability
  learned, selecting a format sets the format, the step and \<^verbatim>\<open>useCommander\<close> and empties both
  names, and \<^verbatim>\<open>hasPartnerAbility\<close> is still true: the handler does not reset it.
\<close>

theorem handleFormatChange_keeps_hasPartnerAbility:
  "hasPartnerAbility ready_state = True \<and>
   format (handleFormatChange ''commander'' ready_state) = ''commander'' \<and>
   step (handleFormatChange ''commander'' ready_state) = 2 \<and>
   commanderName (handleFormatChange ''commander'' ready_state) = [] \<and>
   partnerCommander (handleFormatChange ''commander'' ready_state) = [] \<and>
   useCommander (handleFormatChange ''commander'' ready_state) = True \<and>
   hasPartnerAbility (handleFormatChange ''commander'' ready_state) = True \<and>
   hasPartnerAbility (handleFormatChange ''standard'' ready_state) = True"
  by (simp add: ready_state_eq handleFormatChange_def)

section \<open>Invariants of the workflow\<close>

lemma loading_handleCommanderInput:
  "loading (fst (handleCommanderInput srv v isPartner s)) = False"
  by (simp add: handleCommanderInput_def Let_def catch_commander_def set_name_field_def
      split: fetched.splits partner_fetched.splits)

lemma loading_handleBuildDeck:
  "loading (fst (handleBuildDeck srv s)) = (if cardList s = [] then loading s else False)"
  by (simp add: handleBuildDeck_def Let_def split: fetched.splits)

lemma reachable_not_loading: "reachable s \<Longrightarrow> loading s = False"
proof (induction rule: reachable.induct)
  case init
  show ?case by (simp add: initial_state_def)
next
  case (select_format s fmt)
  then show ?case by (simp add: handleFormatChange_def)
next
  case (upload_file s f)
  then show ?case by (simp add: handleFileUpload_def split: file_read.splits)
next
  case (build s srv)
  then show ?case by (simp add: loading_handleBuildDeck)
qed (simp_all add: loading_handleCommanderInput)

lemma step_result_handleCommanderInput:
  "step (fst (handleCommanderInput srv v isPartner s)) = step s \<and>
   result (fst (handleCommanderInput srv v isPartner s)) = result s"
  by (simp add: handleCommanderInput_def Let_def catch_commander_def set_name_field_def
      split: fetched.splits partner_fetched.splits)

lemma result_handleBuildDeck:
  "result (fst (handleBuildDeck srv s)) \<noteq> result s \<Longrightarrow> step (fst (handleBuildDeck srv s)) = 4"
  by (simp add: handleBuildDeck_def Let_def split: fetched.splits if_splits)

lemma reachable_result_step: "reachable s \<Longrightarrow> result s \<noteq> None \<Longrightarrow> step s = 4 \<or> step s = 2"
proof (induction rule: reachable.induct)
  case init
  then show ?case by (simp add: initial_state_def)
next
  case (select_format s fmt)
  then show ?case by (simp add: handleFormatChange_def)
next
  case (upload_file s f)
  then show ?case by (simp add: handleFileUpload_def split: file_read.splits)
next
  case (build s srv)
  then show ?case 
    by (cases "result (fst (handleBuildDeck srv s)) = result s")
       (auto simp: handleBuildDeck_def Let_def split: fetched.splits if_splits)
qed (simp_all add: step_result_handleCommanderInput)

text \<open>
  C3 as stated fails: after a successful build, selecting a format again puts the step
  back to 2 and keeps the result. The state is reachable, its \<^verbatim>\<open>result\<close> is non-null and
  its \<^verbatim>\<open>step\<close> is not 4.
\<close>

theorem result_only_at_step_4_counterexample:
  "reachable (handleFormatChange ''standard'' built_state) \<and>
   result (handleFormatChange ''standard'' built_state) \<noteq> None \<and>
   step (handleFormatChange ''standard'' built_state) \<noteq> 4"
proof -
  have "reachable (handleFormatChange ''standard'' built_state)"
    by (rule reachable.select_format [OF reachable_built_state]) simp
  then show ?thesis by (simp add: built_state_eq handleFormatChange_def)
qed

text \<open>
  C3, amended. In every reachable state \<^verbatim>\<open>result\<close> is non-null only when \<^verbatim>\<open>step\<close> is 4 or
  2; and a build that changes \<^verbatim>\<open>result\<close> ends with \<^verbatim>\<open>step = 4\<close>.
\<close>

theorem result_only_at_step_4_or_2:
  assumes "reachable s"
  shows "(result s \<noteq> None \<longrightarrow> step s = 4 \<or> step s = 2) \<and>
         (result (fst (handleBuildDeck srv s)) \<noteq> result s \<longrightarrow>
            step (fst (handleBuildDeck srv s)) = 4)"
  using reachable_result_step [OF assms] result_handleBuildDeck [of srv s] by blast

theorem result_only_at_step_4_or_2_witness:
  "reachable ready_state \<and>
   result (fst (handleBuildDeck accepting_server ready_state)) \<noteq> result ready_state \<and>
   step (fst (handleBuildDeck accepting_server ready_state)) = 4 \<and>
   reachable built_state \<and> result built_state \<noteq> None \<and> step built_state = 4"
proof -
  have r: "result ready_state = None" by (simp add: ready_state_eq)
  have b: "result built_state \<noteq> None" by (simp add: built_state_eq)
  have c: "result (fst (handleBuildDeck accepting_server ready_state)) \<noteq> result ready_state"
    using b unfolding built_state_def r .
  from result_only_at_step_4_or_2 [OF reachable_ready_state, of accepting_server]
    result_only_at_step_4_or_2 [OF reachable_built_state, of accepting_server]
    reachable_ready_state reachable_built_state b c
  show ?thesis by (simp add: built_state_eq)
qed

text \<open>
  C5. Commander entry and partner entry end with \<^verbatim>\<open>loading\<close> false on every path, from
  every state. A build that passes its guard ends with \<^verbatim>\<open>loading\<close> false whether the request
  succeeds or fails. The guard's early return does not write \<^verbatim>\<open>loading\<close>, which is false in
  every reachable state: so from every reachable state each of the three actions ends with
  \<^verbatim>\<open>loading\<close> false.
\<close>

theorem loading_false_after_every_action:
  "loading (fst (handleCommanderInput srv v isPartner s)) = False \<and>
   (cardList s \<noteq> [] \<longrightarrow> loading (fst (handleBuildDeck srv s)) = False) \<and>
   (reachable s \<longrightarrow> loading s = False \<and> loading (fst (handleBuildDeck srv s)) = False)"
  using reachable_not_loading [of s]
  by (simp add: loading_handleCommanderInput loading_handleBuildDeck)

theorem loading_false_after_every_action_witness:
  "loading (fst (handleCommanderInput incompatible_server ''Bruse'' True ready_state)) = False \<and>
   cardList ready_state \<noteq> [] \<and>
   loading (fst (handleBuildDeck refusing_server ready_state)) = False \<and>
   reachable ready_state \<and> loading ready_state = False"
  using loading_false_after_every_action [of incompatible_server "''Bruse''" True ready_state]
    loading_false_after_every_action [of refusing_server _ _ ready_state]
    reachable_ready_state
  by (simp add: ready_state_eq)

section \<open>The categorization\<close>

lemma includes_str_sublist: "includes_str s sub = sublist sub s"
  by (induction s) (simp_all add: sublist_Cons_right)

lemma needles_lower:
  "map toLowerCase_char ''creature'' = ''creature''"
  "map toLowerCase_char ''instant'' = ''instant''"
  "map toLowerCase_char ''sorcery'' = ''sorcery''"
  "map toLowerCase_char ''artifact'' = ''artifact''"
  "map toLowerCase_char ''enchantment'' = ''enchantment''"
  "map toLowerCase_char ''planeswalker'' = ''planeswalker''"
  "map toLowerCase_char ''land'' = ''land''"
  by code_simp+

lemma includes_ci:
  "includes_str (toLowerCase t) ''creature'' = ci_substring ''creature'' t"
  "includes_str (toLowerCase t) ''instant'' = ci_substring ''instant'' t"
  "includes_str (toLowerCase t) ''sorcery'' = ci_substring ''sorcery'' t"
  "includes_str (toLowerCase t) ''artifact'' = ci_substring ''artifact'' t"
  "includes_str (toLowerCase t) ''enchantment'' = ci_substring ''enchantment'' t"
  "includes_str (toLowerCase t) ''planeswalker'' = ci_substring ''planeswalker'' t"
  "includes_str (toLowerCase t) ''land'' = ci_substring ''land'' t"
  unfolding includes_str_sublist ci_substring_def needles_lower toLowerCase_def by (rule refl)+

lemma categorize_fields:
  "Commander (categorize c cc) = Commander cc"
  "Partner (categorize c cc) = Partner cc"
  "Creatures (categorize c cc) =
     Creatures cc @ (if spec_category c = Some ''Creatures'' then [Some c] else [])"
  "Instants (categorize c cc) =
     Instants cc @ (if spec_category c = Some ''Instants'' then [Some c] else [])"
  "Sorceries (categorize c cc) =
     Sorceries cc @ (if spec_category c = Some ''Sorceries'' then [Some c] else [])"
  "Artifacts (categorize c cc) =
     Artifacts cc @ (if spec_category c = Some ''Artifacts'' then [Some c] else [])"
  "Enchantments (categorize c cc) =
     Enchantments cc @ (if spec_category c = Some ''Enchantments'' then [Some c] else [])"
  "Planeswalkers (categorize c cc) =
     Planeswalkers cc @ (if spec_category c = Some ''Planeswalkers'' then [Some c] else [])"
  "Lands (categorize c cc) =
     Lands cc @ (if spec_category c = Some ''Lands'' then [Some c] else [])"
  by (simp_all add: categorize_def Let_def includes_ci spec_category_def type_checks_def)

lemma fold_categorize_fields:
  "Commander (fold categorize cs cc) = Commander cc"
  "Partner (fold categorize cs cc) = Partner cc"
  "Creatures (fold categorize cs cc) =
     Creatures cc @ map Some (filter (\<lambda>c. spec_category c = Some ''Creatures'') cs)"
  "Instants (fold categorize cs cc) =
     Instants cc @ map Some (filter (\<lambda>c. spec_category c = Some ''Instants'') cs)"
  "Sorceries (fold categorize cs cc) =
     Sorceries cc @ map Some (filter (\<lambda>c. spec_category c = Some ''Sorceries'') cs)"
  "Artifacts (fold categorize cs cc) =
     Artifacts cc @ map Some (filter (\<lambda>c. spec_category c = Some ''Artifacts'') cs)"
  "Enchantments (fold categorize cs cc) =
     Enchantments cc @ map Some (filter (\<lambda>c. spec_category c = Some ''Enchantments'') cs)"
  "Planeswalkers (fold categorize cs cc) =
     Planeswalkers cc @ map Some (filter (\<lambda>c. spec_category c = Some ''Planeswalkers'') cs)"
  "Lands (fold categorize cs cc) =
     Lands cc @ map Some (filter (\<lambda>c. spec_category c = Some ''Lands'') cs)"
  by (induction cs arbitrary: cc; simp add: categorize_fields)+

lemma entries_categorizedCards:
  "entries (categorizedCards r) =
     (''Commander'', [commander r]) #
     (''Partner'', (case partner r of Some p \<Rightarrow> [Some p] | None \<Rightarrow> [])) #
     map (\<lambda>(category, bucket). (category, map Some bucket)) (spec_type_buckets r)"
  by (simp add: entries_def categorizedCards_def fold_categorize_fields initial_categorized_def
      spec_type_buckets_def type_checks_def)

lemma map_throw_render_li: "map_throw render_li (map Some b) = Inr (map li_text b)"
  by (induction b) (simp_all add: render_li_def)

lemma render_entry_present:
  "render_entry (category, map Some b) =
     Inr (if b \<noteq> [] then Some (section_of (category, b)) else None)"
  by (simp add: render_entry_def map_throw_render_li section_of_def)

lemma map_throw_render_entry:
  "map_throw render_entry (map (\<lambda>(category, bucket). (category, map Some bucket)) es) =
     Inr (map (\<lambda>(category, bucket).
                 if bucket \<noteq> [] then Some (section_of (category, bucket)) else None) es)"
  by (induction es) (auto simp: render_entry_present)

lemma map_filter_sections:
  "List.map_filter (\<lambda>child. child)
     (map (\<lambda>(category, bucket).
             if bucket \<noteq> [] then Some (section_of (category, bucket)) else None) es) =
   map section_of (filter (\<lambda>(category, bucket). bucket \<noteq> []) es)"
  by (induction es) (auto simp: List.map_filter_simps)

lemma renderDeckList_commander_present:
  assumes "result s = Some r" and "commander r = Some c"
  shows "renderDeckList s = Some (Inr (spec_sections c r))"
proof -
  let ?es = "(''Commander'', [c]) #
             (''Partner'', (case partner r of Some p \<Rightarrow> [p] | None \<Rightarrow> [])) #
             spec_type_buckets r"
  have "entries (categorizedCards r) =
          map (\<lambda>(category, bucket). (category, map Some bucket)) ?es"
    using assms(2) by (simp add: entries_categorizedCards split: option.splits)
  then have e: "map_throw render_entry (entries (categorizedCards r)) =
          Inr (map (\<lambda>(category, bucket).
                 if bucket \<noteq> [] then Some (section_of (category, bucket)) else None) ?es)"
    by (simp only: map_throw_render_entry)
  have "renderDeckList s =
          Some (Inr (List.map_filter (\<lambda>child. child)
            (map (\<lambda>(category, bucket).
                 if bucket \<noteq> [] then Some (section_of (category, bucket)) else None) ?es)))"
    using assms(1) e by (simp add: renderDeckList_def)
  then show ?thesis
    unfolding map_filter_sections spec_sections_def .
qed

lemma renderDeckList_commander_absent:
  assumes "result s = Some r" and "commander r = None"
  shows "renderDeckList s = Some (Inl TypeError)"
  using assms
  by (simp add: renderDeckList_def entries_categorizedCards render_entry_def render_li_def)

lemma show_nat_1: "show_nat (Suc 0) = ''1''"
  by (simp add: show_nat.simps)

lemma key_section_of: "key (section_of (category, bucket)) = category"
  by (simp add: section_of_def)

lemma keys_of_sections:
  "x \<in> set (map section_of (filter P es)) \<Longrightarrow> key x \<in> fst ` set es"
  by (force simp: section_of_def)

lemma categories_of_type_buckets:
  "fst ` set (spec_type_buckets r) =
     {''Creatures'', ''Instants'', ''Sorceries'', ''Artifacts'', ''Enchantments'',
      ''Planeswalkers'', ''Lands''}"
  by (simp add: spec_type_buckets_def type_checks_def)

lemma keys_type_sections:
  assumes "x \<in> set (map section_of (filter P (spec_type_buckets r)))"
  shows "key x \<noteq> ''Commander'' \<and> key x \<noteq> ''Partner''"
proof -
  from keys_of_sections [OF assms]
  have "key x \<in> {''Creatures'', ''Instants'', ''Sorceries'', ''Artifacts'', ''Enchantments'',
      ''Planeswalkers'', ''Lands''}"
    by (simp only: categories_of_type_buckets)
  then show ?thesis by auto
qed

lemma spec_sections_shape:
  "spec_sections c r =
     \<lparr>key = ''Commander'', heading = ''Commander (1)'', items = [li_text c]\<rparr> #
     (case partner r of
        Some p \<Rightarrow> [\<lparr>key = ''Partner'', heading = ''Partner (1)'', items = [li_text p]\<rparr>]
      | None \<Rightarrow> []) @
     map section_of (filter (\<lambda>(category, bucket). bucket \<noteq> []) (spec_type_buckets r))"
  by (simp add: spec_sections_def section_of_def show_nat_1 split: option.splits)

lemma spec_sections_example:
  "spec_sections atraxa example_deck =
     [\<lparr>key = ''Commander'', heading = ''Commander (1)'', items = [''Atraxa (4 CMC)'']\<rparr>,
      \<lparr>key = ''Creatures'', heading = ''Creatures (2)'',
         items = [''Bear (2 CMC)'', ''Golem (3 CMC)'']\<rparr>,
      \<lparr>key = ''Instants'', heading = ''Instants (1)'', items = [''Bolt (1 CMC)'']\<rparr>]"
  by code_simp

text \<open>
  C1. \<^verbatim>\<open>renderDeckList\<close> depends on the state through \<^verbatim>\<open>result\<close> only. For every built deck
  the buckets are, in this order, Commander and Partner (filled from the deck's commander
  and partner) and then Creatures, Instants, Sorceries, Artifacts, Enchantments,
  Planeswalkers and Lands, where a type bucket holds, in the order of \<^verbatim>\<open>cards\<close>, the cards
  whose first case-insensitive substring match in that order is its own; a card with no
  match is in no bucket. When the deck has a commander the output is the sections of the
  non-empty buckets in the same order, each listing its bucket in order; when it has none,
  rendering throws and there is no output.
\<close>

theorem renderDeckList_categorization:
  "(result s = result s' \<longrightarrow> renderDeckList s = renderDeckList s') \<and>
   entries (categorizedCards r) =
     (''Commander'', [commander r]) #
     (''Partner'', (case partner r of Some p \<Rightarrow> [Some p] | None \<Rightarrow> [])) #
     map (\<lambda>(category, bucket). (category, map Some bucket)) (spec_type_buckets r) \<and>
   (result s = Some r \<and> commander r = Some c \<longrightarrow>
      renderDeckList s = Some (Inr (spec_sections c r))) \<and>
   (result s = Some r \<and> commander r = None \<longrightarrow> renderDeckList s = Some (Inl TypeError))"
  using renderDeckList_commander_present [of s r c] renderDeckList_commander_absent [of s r]
  by (simp add: entries_categorizedCards renderDeckList_def)

theorem renderDeckList_categorization_witness:
  "result built_state = Some example_deck \<and> commander example_deck = Some atraxa \<and>
   renderDeckList built_state =
     Some (Inr
       [\<lparr>key = ''Commander'', heading = ''Commander (1)'', items = [''Atraxa (4 CMC)'']\<rparr>,
        \<lparr>key = ''Creatures'', heading = ''Creatures (2)'',
           items = [''Bear (2 CMC)'', ''Golem (3 CMC)'']\<rparr>,
        \<lparr>key = ''Instants'', heading = ''Instants (1)'', items = [''Bolt (1 CMC)'']\<rparr>])"
proof -
  have a: "result built_state = Some example_deck" by (simp add: built_state_eq)
  have b: "commander example_deck = Some atraxa" by (simp add: example_deck_def)
  from renderDeckList_categorization [of built_state built_state example_deck atraxa] a b
  show ?thesis by (simp only: spec_sections_example)
qed

text \<open>
  With the commander present the output starts with the Commander section, which has
  exactly one entry; no other section is a Commander section; and a Partner section appears
  if and only if the result has a partner. The Commander bucket is the one-element list of
  the result's commander, whatever it is.
\<close>

lemma commander_section_when_present:
  "Commander (categorizedCards r) = [commander r] \<and>
   (result s = Some r \<and> commander r = Some c \<longrightarrow>
      (\<exists>rest. renderDeckList s =
                 Some (Inr (\<lparr>key = ''Commander'', heading = ''Commander (1)'',
                              items = [li_text c]\<rparr> # rest)) \<and>
              filter (\<lambda>x. key x = ''Commander'') rest = [] \<and>
              ((\<exists>x \<in> set rest. key x = ''Partner'') \<longleftrightarrow> partner r \<noteq> None)))"
proof -
  have 1: "Commander (categorizedCards r) = [commander r]"
    by (simp add: categorizedCards_def fold_categorize_fields initial_categorized_def)
  have 2: "\<exists>rest. renderDeckList s =
                 Some (Inr (\<lparr>key = ''Commander'', heading = ''Commander (1)'',
                              items = [li_text c]\<rparr> # rest)) \<and>
              filter (\<lambda>x. key x = ''Commander'') rest = [] \<and>
              ((\<exists>x \<in> set rest. key x = ''Partner'') \<longleftrightarrow> partner r \<noteq> None)"
    if h: "result s = Some r" "commander r = Some c"
  proof -
    let ?types = "map section_of (filter (\<lambda>(category, bucket). bucket \<noteq> []) (spec_type_buckets r))"
    let ?rest = "(case partner r of
        Some p \<Rightarrow> [\<lparr>key = ''Partner'', heading = ''Partner (1)'', items = [li_text p]\<rparr>]
      | None \<Rightarrow> []) @ ?types"
    have k: "\<forall>x \<in> set ?types. key x \<noteq> ''Commander'' \<and> key x \<noteq> ''Partner''"
      using keys_type_sections by blast
    have a: "renderDeckList s =
        Some (Inr (\<lparr>key = ''Commander'', heading = ''Commander (1)'',
                              items = [li_text c]\<rparr> # ?rest))"
      using renderDeckList_commander_present [OF h] by (simp only: spec_sections_shape)
    have b: "filter (\<lambda>x. key x = ''Commander'') ?rest = []"
      using k by (cases "partner r") (auto simp: filter_empty_conv)
    have c: "(\<exists>x \<in> set ?rest. key x = ''Partner'') \<longleftrightarrow> partner r \<noteq> None"
      using k by (cases "partner r") auto
    from a b c show ?thesis by blast
  qed
  from 1 2 show ?thesis by blast
qed

lemma commander_section_at_example:
  "Commander (categorizedCards example_deck) = [Some atraxa] \<and>
   result built_state = Some example_deck \<and> commander example_deck = Some atraxa \<and>
   partner example_deck = None \<and>
   (\<exists>rest. renderDeckList built_state =
              Some (Inr (\<lparr>key = ''Commander'', heading = ''Commander (1)'',
                           items = [li_text atraxa]\<rparr> # rest)) \<and>
           filter (\<lambda>x. key x = ''Commander'') rest = [] \<and>
           \<not> (\<exists>x \<in> set rest. key x = ''Partner''))"
proof -
  have a: "result built_state = Some example_deck" by (simp add: built_state_eq)
  have b: "commander example_deck = Some atraxa" by (simp add: example_deck_def)
  have c: "partner example_deck = None" by (simp add: example_deck_def)
  from commander_section_when_present [of example_deck built_state atraxa] a b c
  show ?thesis by simp
qed

text \<open>
  C10 at a concrete state: the service answers a build with a deck that has no commander.
  The state is reachable and its \<^verbatim>\<open>result\<close> is non-null; the Commander bucket is the
  one-element list holding \<^verbatim>\<open>undefined\<close>, its length passes the test for a non-empty
  bucket, and rendering its entry throws: there is no output and so no Commander section.
\<close>

theorem renderDeckList_absent_commander_throws:
  "reachable headless_state \<and>
   result headless_state = Some headless_deck \<and>
   commander headless_deck = None \<and>
   Commander (categorizedCards headless_deck) = [None] \<and>
   length (Commander (categorizedCards headless_deck)) > 0 \<and>
   renderDeckList headless_state = Some (Inl TypeError)"
proof -
  have a: "result headless_state = Some headless_deck" by (simp add: headless_state_eq)
  have b: "commander headless_deck = None" by (simp add: headless_deck_def)
  have c: "Commander (categorizedCards headless_deck) = [None]"
    by (simp add: categorizedCards_def fold_categorize_fields initial_categorized_def b)
  from reachable_headless_state a b c renderDeckList_commander_absent [OF a b]
  show ?thesis by simp
qed

section \<open>Failed build\<close>

text \<open>
  C9 as stated fails in its conclusion that no stale result is ever shown. After a
  successful build the card list is replaced and the build submitted again; the request
  fails. The state is reachable with the Build button enabled, and after the handler the
  error is set while \<^verbatim>\<open>result\<close> is still the deck of the earlier build, which
  \<^verbatim>\<open>renderDeckList\<close> goes on displaying beside the error.
\<close>

theorem failed_rebuild_shows_earlier_deck_counterexample:
  "reachable edited_state \<and> \<not> loading edited_state \<and> cardList edited_state \<noteq> [] \<and>
   commanderName edited_state \<noteq> [] \<and>
   build_deck refusing_server (format edited_state) (cardList edited_state)
     (commanderName edited_state) (partnerCommander edited_state) (deckGoal edited_state)
     = NotOk (Some ''Deck too small'') \<and>
   error (fst (handleBuildDeck refusing_server edited_state)) =
     Some ''Error building deck: Deck too small'' \<and>
   cardList (fst (handleBuildDeck refusing_server edited_state)) = ''1x Bear'' \<and>
   result (fst (handleBuildDeck refusing_server edited_state)) = Some example_deck \<and>
   renderDeckList (fst (handleBuildDeck refusing_server edited_state)) =
     Some (Inr
       [\<lparr>key = ''Commander'', heading = ''Commander (1)'', items = [''Atraxa (4 CMC)'']\<rparr>,
        \<lparr>key = ''Creatures'', heading = ''Creatures (2)'',
           items = [''Bear (2 CMC)'', ''Golem (3 CMC)'']\<rparr>,
        \<lparr>key = ''Instants'', heading = ''Instants (1)'', items = [''Bolt (1 CMC)'']\<rparr>])"
proof -
  let ?after = "fst (handleBuildDeck refusing_server edited_state)"
  have e: "?after = edited_state\<lparr>loading := False,
             error := Some ''Error building deck: Deck too small''\<rparr>"
    by (simp add: handleBuildDeck_def edited_state_eq refusing_server_def or_default_def)
  have r: "result ?after = Some example_deck" unfolding e by (simp add: edited_state_eq)
  have c: "commander example_deck = Some atraxa" by (simp add: example_deck_def)
  have d: "renderDeckList ?after =
     Some (Inr
       [\<lparr>key = ''Commander'', heading = ''Commander (1)'', items = [''Atraxa (4 CMC)'']\<rparr>,
        \<lparr>key = ''Creatures'', heading = ''Creatures (2)'',
           items = [''Bear (2 CMC)'', ''Golem (3 CMC)'']\<rparr>,
        \<lparr>key = ''Instants'', heading = ''Instants (1)'', items = [''Bolt (1 CMC)'']\<rparr>])"
    using renderDeckList_commander_present [OF r c] by (simp only: spec_sections_example)
  have f: "build_deck refusing_server (format edited_state) (cardList edited_state)
     (commanderName edited_state) (partnerCommander edited_state) (deckGoal edited_state)
     = NotOk (Some ''Deck too small'')"
    by (simp add: refusing_server_def)
  have g: "\<not> loading edited_state" "cardList edited_state \<noteq> []"
    "commanderName edited_state \<noteq> []"
    by (simp_all add: edited_state_eq)
  have h: "error ?after = Some ''Error building deck: Deck too small''"
    "cardList ?after = ''1x Bear''"
    unfolding e by (simp_all add: edited_state_eq)
  from reachable_edited_state g f h r d show ?thesis by blast
qed

text \<open>
  C9, amended. In every state whose \<^verbatim>\<open>cardList\<close> is not empty: when the build-deck request
  throws an error with message \<open>m\<close>, or answers with a non-2xx status and the error field
  \<open>e\<close>, the state after the handler is the state before it with \<^verbatim>\<open>loading\<close> false and
  \<^verbatim>\<open>error\<close> the text "Error building deck: " followed by the detail. Every other field,
  \<^verbatim>\<open>result\<close>, \<^verbatim>\<open>format\<close>, \<^verbatim>\<open>cardList\<close>, \<^verbatim>\<open>commanderName\<close>, \<^verbatim>\<open>partnerCommander\<close>, \<^verbatim>\<open>deckGoal\<close> and
  \<^verbatim>\<open>step\<close> among them, is unchanged, so the deck list displayed is the one displayed before
  the submission: none when \<^verbatim>\<open>result\<close> was null, the deck of the earlier build otherwise.
\<close>

theorem handleBuildDeck_failure_frame:
  assumes "cardList s \<noteq> []"
  shows "(build_deck srv (format s) (cardList s) (commanderName s) (partnerCommander s) (deckGoal s)
            = Rejected m \<longrightarrow>
          fst (handleBuildDeck srv s) =
            s\<lparr>loading := False, error := Some (''Error building deck: '' @ m)\<rparr> \<and>
          renderDeckList (fst (handleBuildDeck srv s)) = renderDeckList s) \<and>
         (build_deck srv (format s) (cardList s) (commanderName s) (partnerCommander s) (deckGoal s)
            = NotOk e \<longrightarrow>
          fst (handleBuildDeck srv s) =
            s\<lparr>loading := False,
               error := Some (''Error building deck: '' @ or_default e ''Error building deck'')\<rparr> \<and>
          renderDeckList (fst (handleBuildDeck srv s)) = renderDeckList s)"
  using assms by (simp add: handleBuildDeck_def Let_def renderDeckList_def)

theorem handleBuildDeck_failure_frame_witness:
  "cardList ready_state \<noteq> [] \<and>
   build_deck unreachable_server (format ready_state) (cardList ready_state)
     (commanderName ready_state) (partnerCommander ready_state) (deckGoal ready_state)
     = Rejected ''Failed to fetch'' \<and>
   fst (handleBuildDeck unreachable_server ready_state) =
     ready_state\<lparr>loading := False, error := Some ''Error building deck: Failed to fetch''\<rparr> \<and>
   renderDeckList (fst (handleBuildDeck unreachable_server ready_state)) = None \<and>
   cardList built_state \<noteq> [] \<and>
   build_deck refusing_server (format built_state) (cardList built_state)
     (commanderName built_state) (partnerCommander built_state) (deckGoal built_state)
     = NotOk (Some ''Deck too small'') \<and>
   fst (handleBuildDeck refusing_server built_state) =
     built_state\<lparr>loading := False, error := Some ''Error building deck: Deck too small''\<rparr> \<and>
   renderDeckList (fst (handleBuildDeck refusing_server built_state)) =
     renderDeckList built_state"
proof -
  have c1: "cardList ready_state \<noteq> []" by (simp add: ready_state_eq)
  have c2: "cardList built_state \<noteq> []" by (simp add: built_state_eq)
  have r: "build_deck unreachable_server (format ready_state) (cardList ready_state)
     (commanderName ready_state) (partnerCommander ready_state) (deckGoal ready_state)
     = Rejected ''Failed to fetch''"
    by (simp add: unreachable_server_def)
  have f: "build_deck refusing_server (format built_state) (cardList built_state)
     (commanderName built_state) (partnerCommander built_state) (deckGoal built_state)
     = NotOk (Some ''Deck too small'')"
    by (simp add: refusing_server_def)
  have n: "renderDeckList ready_state = None"
    by (simp add: renderDeckList_def ready_state_eq)
  note t1 = handleBuildDeck_failure_frame [OF c1, of unreachable_server "''Failed to fetch''",
      THEN conjunct1, rule_format, OF r]
  note t2 = handleBuildDeck_failure_frame [OF c2, of refusing_server _ "Some ''Deck too small''",
      THEN conjunct2, rule_format, OF f]
  have a1: "fst (handleBuildDeck unreachable_server ready_state) =
     ready_state\<lparr>loading := False, error := Some ''Error building deck: Failed to fetch''\<rparr>"
    using t1 [THEN conjunct1] by simp
  have a2: "renderDeckList (fst (handleBuildDeck unreachable_server ready_state)) = None"
    using t1 [THEN conjunct2] n by simp
  have b1: "fst (handleBuildDeck refusing_server built_state) =
     built_state\<lparr>loading := False, error := Some ''Error building deck: Deck too small''\<rparr>"
    using t2 [THEN conjunct1] by (simp add: or_default_def)
  have b2: "renderDeckList (fst (handleBuildDeck refusing_server built_state)) =
     renderDeckList built_state"
    using t2 [THEN conjunct2] .
  from c1 r a1 a2 c2 f b1 b2 show ?thesis by blast
qed

end
